theory Spec2Isabelle
  imports Complex_Main
begin

section \<open>JavaScript values and string built-ins used by the server\<close>

text \<open>
  The server (the webhook handler of the WhatsApp supplier search) is embedded as pure
  functions over an explicit store. Strings are lists of 8-bit characters; the handler
  only compares against ASCII keywords, so \<open>toLowerCase\<close> folds \<open>A\<close>..\<open>Z\<close> and white space
  is the ASCII white space. A property that is \<open>undefined\<close>, \<open>null\<close> or set is a \<open>jsval\<close>.
\<close>

datatype 'a jsval = Undefined | Null | Val 'a

text \<open>A JavaScript number as far as the handler looks at it: \<open>NaN\<close>, a finite value or an
  infinity. \<open>-0\<close> is \<open>Num 0\<close>: \<open>-0 >= 0\<close> holds in JavaScript too.\<close>

datatype jsnum = NaN | Num rat | PosInfinity | NegInfinity

definition isNaN :: "jsnum \<Rightarrow> bool" where
  "isNaN x = (x = NaN)"

text \<open>\<open>x >= 0\<close> on numbers.\<close>

fun geZero :: "jsnum \<Rightarrow> bool" where
  "geZero NaN = False"
| "geZero (Num r) = (0 \<le> r)"
| "geZero PosInfinity = True"
| "geZero NegInfinity = False"

text \<open>Truthiness of a string-valued property: \<open>undefined\<close>, \<open>null\<close> and \<open>''\<close> are falsy.\<close>

fun truthy :: "string jsval \<Rightarrow> bool" where
  "truthy Undefined = False"
| "truthy Null = False"
| "truthy (Val s) = (s \<noteq> [])"

fun strOf :: "string jsval \<Rightarrow> string" where
  "strOf (Val s) = s"
| "strOf Undefined = ''undefined''"
| "strOf Null = ''null''"

text \<open>Template-literal rendering of a property that is a string or \<open>undefined\<close>.\<close>

fun render :: "string option \<Rightarrow> string" where
  "render None = ''undefined''"
| "render (Some s) = s"

definition isDigit :: "char \<Rightarrow> bool" where
  "isDigit c = (c \<in> set ''0123456789'')"

definition isSpace :: "char \<Rightarrow> bool" where
  "isSpace c = (c \<in> set [CHR '' '', CHR 0x09, CHR 0x0A, CHR 0x0B, CHR 0x0C, CHR 0x0D])"

text \<open>\<open>String.prototype.trim\<close>.\<close>

definition trim :: "string \<Rightarrow> string" where
  "trim s = rev (dropWhile isSpace (rev (dropWhile isSpace s)))"

definition lowerChar :: "char \<Rightarrow> char" where
  "lowerChar c =
     (case map_of (zip ''ABCDEFGHIJKLMNOPQRSTUVWXYZ'' ''abcdefghijklmnopqrstuvwxyz'') c of
        Some l \<Rightarrow> l
      | None \<Rightarrow> c)"

definition toLowerCase :: "string \<Rightarrow> string" where
  "toLowerCase s = map lowerChar s"

text \<open>\<open>s.startsWith(p)\<close> and \<open>s.includes(p)\<close>.\<close>

definition startsWith :: "string \<Rightarrow> string \<Rightarrow> bool" where
  "startsWith s p = (take (length p) s = p)"

fun includesStr :: "string \<Rightarrow> string \<Rightarrow> bool" where
  "includesStr [] p = (p = [])"
| "includesStr (c # cs) p = (startsWith (c # cs) p \<or> includesStr cs p)"

text \<open>\<open>s.replace(pat, rep)\<close> with a string pattern: the first occurrence only.\<close>

fun replaceFirst :: "string \<Rightarrow> string \<Rightarrow> string \<Rightarrow> string" where
  "replaceFirst pat rep [] = (if pat = [] then rep else [])"
| "replaceFirst pat rep (c # cs) =
     (if startsWith (c # cs) pat then rep @ drop (length pat) (c # cs)
      else c # replaceFirst pat rep cs)"

text \<open>The value of a run of decimal digits, and \<open>parseInt(s, 10)\<close>: leading white space,
  an optional sign, then the longest run of digits; \<open>None\<close> is \<open>NaN\<close>. The result is the
  exact integer (a double holds it exactly below \<open>2^53\<close>, which covers postal codes).\<close>

definition digitVal :: "char \<Rightarrow> nat" where
  "digitVal c = of_char c - 48"

definition digitsVal :: "string \<Rightarrow> nat" where
  "digitsVal ds = foldl (\<lambda>acc c. 10 * acc + digitVal c) 0 ds"

definition parseInt10 :: "string \<Rightarrow> int option" where
  "parseInt10 s =
     (let t = dropWhile isSpace s;
          neg = (take 1 t = ''-'');
          u = (if take 1 t = ''-'' \<or> take 1 t = ''+'' then drop 1 t else t);
          ds = takeWhile isDigit u
      in if ds = [] then None
         else Some (if neg then - int (digitsVal ds) else int (digitsVal ds)))"

text \<open>\<open>n.toString()\<close> of a non-negative integer.\<close>

definition digitChar :: "nat \<Rightarrow> char" where
  "digitChar n = ''0123456789'' ! n"

function showNat :: "nat \<Rightarrow> string" where
  "showNat n = (if n < 10 then [digitChar n] else showNat (n div 10) @ [digitChar (n mod 10)])"
  by pat_completeness auto
termination
  by (relation "measure id") auto

declare showNat.simps [simp del]

text \<open>The two regular expressions of the handler. \<open>/#(\d+)/\<close> finds the leftmost \<open>#\<close> that
  a digit follows and captures the whole run of digits; \<open>/^\d{6}$/\<close> accepts exactly six
  digits.\<close>

fun inquiryIdMatch :: "string \<Rightarrow> string option" where
  "inquiryIdMatch [] = None"
| "inquiryIdMatch (c # cs) =
     (if c = CHR ''#'' \<and> takeWhile isDigit cs \<noteq> [] then Some (takeWhile isDigit cs)
      else inquiryIdMatch cs)"

definition isSixDigits :: "string \<Rightarrow> bool" where
  "isSixDigits s = (length s = 6 \<and> list_all isDigit s)"

section \<open>Data model\<close>

text \<open>\<open>session.data\<close>: the request accumulated over the dialogue.\<close>

record request_data =
  product_name :: "string jsval"
  category :: "string jsval"
  quantity :: "jsnum jsval"
  pincode :: "string jsval"
  proximity :: "string jsval"

definition emptyData :: request_data where
  "emptyData = \<lparr>product_name = Undefined, category = Undefined, quantity = Undefined,
                 pincode = Undefined, proximity = Undefined\<rparr>"

record session =
  state :: string
  data :: request_data

text \<open>One match of the vector index, with the metadata fields the server reads. A field
  the record lacks is \<open>None\<close>; a field that is present is a string, as the server's string
  methods on it assume.\<close>

record match =
  match_id :: string
  meta_product_name :: "string option"
  meta_pin_code :: "string option"
  meta_contact :: "string option"
  meta_seller_name :: "string option"

record supplier =
  number :: "string option"
  name :: "string option"

record inquiry =
  user :: string
  productName :: "string jsval"
  suppliers :: "supplier list"

record outmsg =
  msg_to :: string
  msg_body :: string

text \<open>The two in-memory maps of the process, and the messages the transport accepted.\<close>

record store =
  sessions :: "string \<rightharpoonup> session"
  inquiries :: "string \<rightharpoonup> inquiry"
  outbox :: "outmsg list"

record filters =
  f_category :: "string option"
  f_moq_lte :: "jsnum option"

record queryParams =
  qp_vector :: "rat list"
  qp_topK :: nat
  qp_includeMetadata :: bool
  qp_filter :: "filters option"

text \<open>The external collaborators at the time of one inbound message: the embedding
  function and the index query (\<open>None\<close>: the call throws), whether the transport accepts
  a message (\<open>False\<close>: \<open>client.messages.create\<close> rejects), the clock \<open>Date.now()\<close>, and
  the built-ins \<open>parseFloat\<close> and number-to-string conversion, which produce and print
  binary floating-point numbers.\<close>

record env =
  embedder :: "string \<Rightarrow> rat list option"
  index_query :: "queryParams \<Rightarrow> match list option"
  send_ok :: "outmsg \<Rightarrow> bool"
  now :: nat
  parseFloat :: "string \<Rightarrow> jsnum"
  numToString :: "jsnum \<Rightarrow> string"

datatype error = EmbedderError | TypeError | TransportError

record request =
  Body :: string
  From :: string

section \<open>The search: \<open>performSearch\<close>\<close>

text \<open>The metadata filter sent to the index: the category when it is truthy, the
  quantity bound when the quantity is neither \<open>undefined\<close> nor \<open>null\<close>; the filter is left
  out of the query when it has no key.\<close>

definition buildFilters :: "request_data \<Rightarrow> filters" where
  "buildFilters d =
     \<lparr>f_category = (if truthy (category d) then Some (strOf (category d)) else None),
      f_moq_lte = (case quantity d of Val q \<Rightarrow> Some q | _ \<Rightarrow> None)\<rparr>"

definition buildQuery :: "rat list \<Rightarrow> request_data \<Rightarrow> queryParams" where
  "buildQuery queryVector d =
     \<lparr>qp_vector = queryVector, qp_topK = 1000, qp_includeMetadata = True,
      qp_filter = (if f_category (buildFilters d) = None \<and> f_moq_lte (buildFilters d) = None
                   then None else Some (buildFilters d))\<rparr>"

text \<open>The product-name filter: \<open>m.metadata['Product Name'].toLowerCase().includes(...)\<close>.
  The callback throws a \<open>TypeError\<close> on a match without that field, which aborts the
  filter.\<close>

definition nameMatches :: "string \<Rightarrow> match \<Rightarrow> bool" where
  "nameMatches productNameLower m =
     (case meta_product_name m of
        Some n \<Rightarrow> includesStr (toLowerCase n) productNameLower
      | None \<Rightarrow> False)"

definition filterByName :: "string \<Rightarrow> match list \<Rightarrow> error + match list" where
  "filterByName productNameLower ms =
     (if list_ex (\<lambda>m. meta_product_name m = None) ms then Inl TypeError
      else Inr (filter (nameMatches productNameLower) ms))"

text \<open>The same-state filter: \<open>m.metadata['PIN Code'].startsWith(pincodePrefix)\<close>.\<close>

definition pinHasPrefix :: "string \<Rightarrow> match \<Rightarrow> bool" where
  "pinHasPrefix pincodePrefix m =
     (case meta_pin_code m of
        Some c \<Rightarrow> startsWith c pincodePrefix
      | None \<Rightarrow> False)"

definition filterByPrefix :: "string \<Rightarrow> match list \<Rightarrow> error + match list" where
  "filterByPrefix pincodePrefix ms =
     (if list_ex (\<lambda>m. meta_pin_code m = None) ms then Inl TypeError
      else Inr (filter (pinHasPrefix pincodePrefix) ms))"

text \<open>The comparator of the pan-India sort. \<open>parseInt\<close> of a missing field is \<open>NaN\<close>;
  \<open>pinDistance\<close> is \<open>Math.abs(pin - userPin)\<close> and \<open>panCompare\<close> the value the
  comparator returns, \<open>None\<close> standing for \<open>NaN\<close>.\<close>

definition pinDistance :: "string \<Rightarrow> match \<Rightarrow> int option" where
  "pinDistance userPincode m =
     (case (case meta_pin_code m of Some c \<Rightarrow> parseInt10 c | None \<Rightarrow> None) of
        None \<Rightarrow> None
      | Some pin \<Rightarrow>
          (case parseInt10 userPincode of
             None \<Rightarrow> None
           | Some userPin \<Rightarrow> Some \<bar>pin - userPin\<bar>))"

definition panCompare :: "string \<Rightarrow> match \<Rightarrow> match \<Rightarrow> int option" where
  "panCompare userPincode a b =
     (case pinDistance userPincode a of
        None \<Rightarrow> None
      | Some da \<Rightarrow>
          (case pinDistance userPincode b of
             None \<Rightarrow> None
           | Some db \<Rightarrow> Some (da - db)))"

text \<open>\<open>Array.prototype.sort\<close> with a comparator. ECMAScript fixes the result only for a
  consistent comparator: the stable sort. A comparator value that is \<open>NaN\<close> counts as
  \<open>0\<close>. The model is the stable insertion sort, where \<open>before a b\<close> says that the
  comparator returns a negative number on \<open>(a, b)\<close>; with an inconsistent comparator it
  is one of the orders an engine may produce.\<close>

definition panBefore :: "string \<Rightarrow> match \<Rightarrow> match \<Rightarrow> bool" where
  "panBefore userPincode a b =
     (case panCompare userPincode a b of None \<Rightarrow> False | Some v \<Rightarrow> v < 0)"

fun insertBy :: "('a \<Rightarrow> 'a \<Rightarrow> bool) \<Rightarrow> 'a \<Rightarrow> 'a list \<Rightarrow> 'a list" where
  "insertBy before x [] = [x]"
| "insertBy before x (y # ys) =
     (if before y x then y # insertBy before x ys else x # y # ys)"

definition sortBy :: "('a \<Rightarrow> 'a \<Rightarrow> bool) \<Rightarrow> 'a list \<Rightarrow> 'a list" where
  "sortBy before xs = foldr (insertBy before) xs []"

text \<open>The proximity step. When both the PIN code and the preference are truthy and the
  preference is neither \<open>same\<close> nor \<open>pan\<close>, the source truncates nothing.\<close>

definition applyProximity :: "request_data \<Rightarrow> match list \<Rightarrow> error + match list" where
  "applyProximity d ms =
     (if truthy (pincode d) \<and> truthy (proximity d) then
        (if proximity d = Val ''same'' then
           (case filterByPrefix (take 2 (strOf (pincode d))) ms of
              Inl err \<Rightarrow> Inl err
            | Inr kept \<Rightarrow> Inr (take 5 kept))
         else if proximity d = Val ''pan'' then
           Inr (take 5 (sortBy (panBefore (strOf (pincode d))) ms))
         else Inr ms)
      else Inr (take 5 ms))"

text \<open>\<open>performSearch(data)\<close>. The call of the embedder stands outside every \<open>try\<close>, the
  index query inside one that returns the empty list.\<close>

definition performSearch :: "env \<Rightarrow> request_data \<Rightarrow> error + match list" where
  "performSearch e d =
     (let queryText = (if truthy (product_name d) then strOf (product_name d) else ''chemicals'')
      in case embedder e queryText of
           None \<Rightarrow> Inl EmbedderError
         | Some queryVector \<Rightarrow>
             (case index_query e (buildQuery queryVector d) of
                None \<Rightarrow> Inr []
              | Some ms \<Rightarrow>
                  (case (if truthy (product_name d)
                         then filterByName (toLowerCase (strOf (product_name d))) ms
                         else Inr ms) of
                     Inl err \<Rightarrow> Inl err
                   | Inr named \<Rightarrow> applyProximity d named)))"

section \<open>Inquiries: \<open>sendInquiryToSupplier\<close> and \<open>performSearchAndFormat\<close>\<close>

definition inquiryMessage :: "env \<Rightarrow> request_data \<Rightarrow> string \<Rightarrow> string \<Rightarrow> outmsg" where
  "inquiryMessage e d inquiryId supplierNumber =
     \<lparr>msg_to = ''whatsapp:'' @ supplierNumber,
      msg_body =
        ''Please provide your quotation for inquiry #'' @ inquiryId @ '':\<newline>Product: ''
        @ (if truthy (product_name d) then strOf (product_name d) else ''Not specified'')
        @ ''\<newline>Category: ''
        @ (if truthy (category d) then strOf (category d) else ''Not specified'')
        @ ''\<newline>Quantity: ''
        @ (case quantity d of Val q \<Rightarrow> numToString e q | _ \<Rightarrow> ''Not specified'')
        @ ''\<newline>Send your quotation via WhatsApp only, including the inquiry number.''\<rparr>"

text \<open>The contact numbers the inquiry goes to:
  \<open>matches.map(m => m.metadata['Seller POC Contact Number']).filter(number => number)\<close>.\<close>

definition supplierNumbers :: "match list \<Rightarrow> string list" where
  "supplierNumbers matches =
     concat (map (\<lambda>m. case meta_contact m of
                          Some n \<Rightarrow> (if n = [] then [] else [n])
                        | None \<Rightarrow> []) matches)"

definition newInquiry :: "request_data \<Rightarrow> string \<Rightarrow> match list \<Rightarrow> inquiry" where
  "newInquiry d fromNumber matches =
     \<lparr>user = fromNumber, productName = product_name d,
      suppliers = map (\<lambda>m. \<lparr>number = meta_contact m, name = meta_seller_name m\<rparr>) matches\<rparr>"

definition msg_none_found :: string where
  "msg_none_found = ''No suppliers found matching your criteria.''"

definition msg_no_contacts :: string where
  "msg_no_contacts = ''No suppliers with contact numbers found.''"

definition msg_sent :: "string \<Rightarrow> nat \<Rightarrow> string" where
  "msg_sent inquiryId n =
     ''We have sent your inquiry #'' @ inquiryId @ '' to '' @ showNat n
     @ '' suppliers. You will receive their responses within 24 hours.''"

text \<open>\<open>performSearchAndFormat(data, fromNumber)\<close>: the reply to the buyer and the store
  after it. A send that the transport rejects is caught in \<open>sendInquiryToSupplier\<close>, so
  it only leaves no message behind.\<close>

definition performSearchAndFormat ::
    "env \<Rightarrow> request_data \<Rightarrow> string \<Rightarrow> store \<Rightarrow> error + string \<times> store" where
  "performSearchAndFormat e d fromNumber st =
     (case performSearch e d of
        Inl err \<Rightarrow> Inl err
      | Inr matches \<Rightarrow>
          if matches = [] then Inr (msg_none_found, st)
          else
            (let inquiryId = showNat (now e);
                 st1 = st\<lparr>inquiries := (inquiries st)(inquiryId \<mapsto> newInquiry d fromNumber matches)\<rparr>
             in if supplierNumbers matches = [] then Inr (msg_no_contacts, st1)
                else Inr (msg_sent inquiryId (length (supplierNumbers matches)),
                          st1\<lparr>outbox := outbox st1
                                 @ filter (send_ok e)
                                     (map (inquiryMessage e d inquiryId) (supplierNumbers matches))\<rparr>)))"

section \<open>The webhook handler\<close>

subsection \<open>The fixed replies\<close>

definition msg_forwarded :: string where
  "msg_forwarded = ''Your quotation has been forwarded to the user.''"

definition msg_supplier_not_found :: string where
  "msg_supplier_not_found = ''Supplier not found for this inquiry.''"

definition msg_inquiry_not_found :: string where
  "msg_inquiry_not_found = ''Inquiry not found.''"

definition msg_terminated :: string where
  "msg_terminated =
     ''Search terminated. Goodbye! Send '' @ [CHR 0x22] @ ''hello'' @ [CHR 0x22]
     @ '' to start a new search.''"

definition msg_welcome :: string where
  "msg_welcome =
     ''Welcome to the Chemical Product Search! Connect with suppliers across India.\<newline>\<newline>''
     @ ''You can send 'no' or 'stop' at any time to exit.\<newline>\<newline>''
     @ ''Enter part of the Product Name (e.g., 'Sodium', or send 'skip' to skip):''"

definition msg_ask_category :: string where
  "msg_ask_category =
     ''Enter the Product Category (e.g., 'Industrial Chemicals', or send 'skip' to skip):''"

definition msg_ask_quantity :: string where
  "msg_ask_quantity = ''How much do you need (in units, e.g., 500, or send 'skip' to skip):''"

definition msg_ask_pincode :: string where
  "msg_ask_pincode = ''Enter your 6-digit PIN code (e.g., 390013, or send 'skip' to skip):''"

definition msg_bad_quantity :: string where
  "msg_bad_quantity =
     ''Please enter a valid non-negative number for quantity, or send 'skip' to skip.''"

definition msg_ask_proximity :: string where
  "msg_ask_proximity =
     ''Do you want suppliers from the same state (same) or anywhere in India (pan)? ''
     @ ''Send 'same' or 'pan':''"

definition msg_bad_pincode :: string where
  "msg_bad_pincode = ''Please enter a valid 6-digit PIN code, or send 'skip' to skip.''"

definition msg_bad_proximity :: string where
  "msg_bad_proximity = ''Please send 'same' for same state or 'pan' for pan-India.''"

definition msg_restart :: string where
  "msg_restart =
     ''Let's start a new search.\<newline>\<newline>''
     @ ''Enter part of the Product Name (e.g., 'Sodium', or send 'skip' to skip):''"

definition msg_farewell :: string where
  "msg_farewell =
     ''Thank you for using the Chemical Product Search! Goodbye! ''
     @ ''Send 'hello' to start a new search.''"

definition msg_went_wrong :: string where
  "msg_went_wrong = ''Sorry, something went wrong. Please send 'hello' to start again.''"

definition msg_search_again :: string where
  "msg_search_again =
     ''\<newline>\<newline>Do you want to search again? Send 'yes' to start a new search.''"

subsection \<open>A supplier's reply\<close>

definition quotationMessage :: "inquiry \<Rightarrow> supplier \<Rightarrow> string \<Rightarrow> outmsg" where
  "quotationMessage inq sender incomingMessage =
     \<lparr>msg_to = user inq,
      msg_body =
        ''Quotation for ''
        @ (if truthy (productName inq) then strOf (productName inq) else ''the product'')
        @ '' from '' @ render (name sender) @ '' ('' @ render (number sender) @ ''): ''
        @ incomingMessage\<rparr>"

text \<open>The branch taken when the message holds \<open>#\<close> and digits. The forward to the buyer
  stands outside every \<open>try\<close>: a transport that rejects it ends the handler with the
  exception and without a reply.\<close>

definition supplierResponse ::
    "env \<Rightarrow> store \<Rightarrow> string \<Rightarrow> string \<Rightarrow> string \<Rightarrow> (error + string) \<times> store" where
  "supplierResponse e st fromNumber incomingMessage inquiryId =
     (case inquiries st inquiryId of
        None \<Rightarrow> (Inr msg_inquiry_not_found, st)
      | Some inq \<Rightarrow>
          (let supplierNumber = replaceFirst ''whatsapp:'' [] fromNumber
           in case find (\<lambda>s. number s = Some supplierNumber) (suppliers inq) of
                None \<Rightarrow> (Inr msg_supplier_not_found, st)
              | Some sender \<Rightarrow>
                  if send_ok e (quotationMessage inq sender incomingMessage)
                  then (Inr msg_forwarded,
                        st\<lparr>outbox := outbox st @ [quotationMessage inq sender incomingMessage]\<rparr>)
                  else (Inl TransportError, st)))"

subsection \<open>A buyer's message\<close>

text \<open>The \<open>switch (session.state)\<close>. The result is the reply (or the exception that left
  the handler), the session object after the case has run, whether the object is still
  in the session map (\<open>False\<close> after \<open>delete sessions[fromNumber]\<close>), and the store as
  the search left it. The session object is changed in place: what a case assigns before
  \<open>performSearchAndFormat\<close> throws stays assigned.\<close>

definition switchState ::
    "env \<Rightarrow> store \<Rightarrow> string \<Rightarrow> string \<Rightarrow> session
       \<Rightarrow> (error + string) \<times> session \<times> bool \<times> store" where
  "switchState e st fromNumber incomingMessage session =
     (let lowerMessage = toLowerCase incomingMessage; d = data session in
      if state session = ''START'' then
        (Inr msg_welcome, session\<lparr>state := ''PRODUCT_NAME''\<rparr>, True, st)
      else if state session = ''PRODUCT_NAME'' then
        (Inr msg_ask_category,
         session\<lparr>data := (if lowerMessage \<noteq> ''skip'' then d\<lparr>product_name := Val incomingMessage\<rparr>
                           else d),
                 state := ''CATEGORY''\<rparr>, True, st)
      else if state session = ''CATEGORY'' then
        (Inr msg_ask_quantity,
         session\<lparr>data := (if lowerMessage \<noteq> ''skip'' then d\<lparr>category := Val incomingMessage\<rparr>
                           else d),
                 state := ''QUANTITY''\<rparr>, True, st)
      else if state session = ''QUANTITY'' then
        (if lowerMessage = ''skip'' then
           (Inr msg_ask_pincode, session\<lparr>data := d\<lparr>quantity := Null\<rparr>, state := ''PINCODE''\<rparr>,
            True, st)
         else if \<not> isNaN (parseFloat e incomingMessage) \<and> geZero (parseFloat e incomingMessage)
         then
           (Inr msg_ask_pincode,
            session\<lparr>data := d\<lparr>quantity := Val (parseFloat e incomingMessage)\<rparr>,
                    state := ''PINCODE''\<rparr>, True, st)
         else (Inr msg_bad_quantity, session, True, st))
      else if state session = ''PINCODE'' then
        (if lowerMessage = ''skip'' then
           (case performSearchAndFormat e (d\<lparr>pincode := Null\<rparr>) fromNumber st of
              Inl err \<Rightarrow> (Inl err, session\<lparr>data := d\<lparr>pincode := Null\<rparr>\<rparr>, True, st)
            | Inr (responseMessage, st') \<Rightarrow>
                (Inr responseMessage,
                 session\<lparr>data := d\<lparr>pincode := Null\<rparr>, state := ''END''\<rparr>, True, st'))
         else if isSixDigits incomingMessage then
           (Inr msg_ask_proximity,
            session\<lparr>data := d\<lparr>pincode := Val incomingMessage\<rparr>, state := ''PROXIMITY''\<rparr>,
            True, st)
         else (Inr msg_bad_pincode, session, True, st))
      else if state session = ''PROXIMITY'' then
        (if lowerMessage = ''same'' \<or> lowerMessage = ''pan'' then
           (case performSearchAndFormat e (d\<lparr>proximity := Val lowerMessage\<rparr>) fromNumber st of
              Inl err \<Rightarrow> (Inl err, session\<lparr>data := d\<lparr>proximity := Val lowerMessage\<rparr>\<rparr>, True, st)
            | Inr (responseMessage, st') \<Rightarrow>
                (Inr responseMessage,
                 session\<lparr>data := d\<lparr>proximity := Val lowerMessage\<rparr>, state := ''END''\<rparr>,
                 True, st'))
         else (Inr msg_bad_proximity, session, True, st))
      else if state session = ''END'' then
        (if lowerMessage = ''yes'' \<or> lowerMessage = ''y'' then
           (Inr msg_restart, session\<lparr>state := ''START'', data := emptyData\<rparr>, True, st)
         else (Inr msg_farewell, session, False, st))
      else (Inr msg_went_wrong, session, False, st))"

text \<open>Writing the session object back: the map holds the object itself, so the map
  shows its changes unless the entry was deleted.\<close>

definition putSession :: "store \<Rightarrow> string \<Rightarrow> session \<Rightarrow> bool \<Rightarrow> store" where
  "putSession st fromNumber session kept =
     st\<lparr>sessions := (if kept then (sessions st)(fromNumber \<mapsto> session)
                      else (sessions st)(fromNumber := None))\<rparr>"

text \<open>The \<open>else\<close> branch of the handler: look the session up or start one (also on
  \<open>hello\<close>), end on \<open>no\<close> or \<open>stop\<close>, else run the switch; then the prompt to search
  again, which reads the state of the session object, deleted or not.\<close>

definition userMessage ::
    "env \<Rightarrow> store \<Rightarrow> string \<Rightarrow> string \<Rightarrow> (error + string) \<times> store" where
  "userMessage e st fromNumber incomingMessage =
     (let lowerMessage = toLowerCase incomingMessage;
          session = (case sessions st fromNumber of
                       None \<Rightarrow> \<lparr>state = ''START'', data = emptyData\<rparr>
                     | Some s \<Rightarrow> if lowerMessage = ''hello''
                                then \<lparr>state = ''START'', data = emptyData\<rparr> else s)
      in case (if lowerMessage = ''no'' \<or> lowerMessage = ''stop''
               then (Inr msg_terminated, session, False, st)
               else switchState e st fromNumber incomingMessage session) of
           (Inl err, session', kept, st') \<Rightarrow> (Inl err, putSession st' fromNumber session' kept)
         | (Inr responseMessage, session', kept, st') \<Rightarrow>
             (Inr (if state session' = ''END'' \<and> lowerMessage \<noteq> ''no'' \<and> lowerMessage \<noteq> ''stop''
                   then responseMessage @ msg_search_again else responseMessage),
              putSession st' fromNumber session' kept))"

text \<open>\<open>app.post('/webhook', ...)\<close>: the reply sent, or the exception that left the
  handler unanswered, and the store after the message.\<close>

definition webhook :: "env \<Rightarrow> store \<Rightarrow> request \<Rightarrow> (error + string) \<times> store" where
  "webhook e st req =
     (let incomingMessage = trim (Body req); fromNumber = From req
      in case inquiryIdMatch incomingMessage of
           Some inquiryId \<Rightarrow> supplierResponse e st fromNumber incomingMessage inquiryId
         | None \<Rightarrow> userMessage e st fromNumber incomingMessage)"

section \<open>Ordering by postal-code distance\<close>




section \<open>Dialogues\<close>

text \<open>A turn is one inbound message together with the collaborators as they are when it
  arrives; \<open>runTurns\<close> handles the turns in order, each on the store the one before left
  (also after a handler that ended with an exception). \<open>turnText\<close> is the trimmed text the
  handler looks at.

  A dialogue turn of a buyer is a message of that buyer without correlation reference
  that is not \<open>no\<close> or \<open>stop\<close>; an answer turn is moreover not \<open>hello\<close>, which would start
  the dialogue again. \<open>wellFormedDialogue\<close> describes a dialogue that is carried through:
  a first message, an answer for the product name and one for the category, any number of
  rejected quantities and a valid one (\<open>skip\<close> or a non-negative number), any number of
  rejected PIN codes and one of six digits, any number of rejected preferences and a
  valid one. \<open>answers\<close> is the request these answers describe: a text answer as it was
  typed or nothing for \<open>skip\<close>, the quantity as \<open>parseFloat\<close> reads it or \<open>null\<close> for \<open>skip\<close>,
  the six digits, and the preference in lower case.\<close>

type_synonym turn = "env \<times> request"

fun runTurns :: "store \<Rightarrow> turn list \<Rightarrow> store" where
  "runTurns st [] = st"
| "runTurns st (t # ts) = runTurns (snd (webhook (fst t) st (snd t))) ts"











section \<open>The proximity preference of a request\<close>

text \<open>The data model allows two preferences. \<open>proximityTyped\<close> says that the preference
  of a request is unset or one of them, \<open>sessionsTyped\<close> that this holds of the request of
  every session of a store.\<close>

definition proximityTyped :: "request_data \<Rightarrow> bool" where
  "proximityTyped d = (proximity d \<in> {Undefined, Null, Val ''same'', Val ''pan''})"

definition sessionsTyped :: "store \<Rightarrow> bool" where
  "sessionsTyped st = (\<forall>f s. sessions st f = Some s \<longrightarrow> proximityTyped (data s))"

section \<open>Worked examples\<close>

text \<open>Concrete collaborators, catalogue records and stores on which the theorems below
  are instantiated. \<open>exParseFloat\<close> agrees with \<open>parseFloat\<close> on runs of digits and
  \<open>exNumToString\<close> with the number-to-string conversion on non-negative integers; the
  examples use them on nothing else.\<close>

definition exParseFloat :: "string \<Rightarrow> jsnum" where
  "exParseFloat s = (if s \<noteq> [] \<and> list_all isDigit s then Num (of_nat (digitsVal s)) else NaN)"

fun exNumToString :: "jsnum \<Rightarrow> string" where
  "exNumToString (Num r) = showNat (nat \<lfloor>r\<rfloor>)"
| "exNumToString NaN = ''NaN''"
| "exNumToString PosInfinity = ''Infinity''"
| "exNumToString NegInfinity = ''-Infinity''"

definition exNear :: match where
  "exNear = \<lparr>match_id = ''a'', meta_product_name = Some ''Sodium Chloride'',
             meta_pin_code = Some ''390001'', meta_contact = Some ''+911111111111'',
             meta_seller_name = Some ''Acme''\<rparr>"

definition exFar :: match where
  "exFar = \<lparr>match_id = ''b'', meta_product_name = Some ''Sodium Sulphate'',
            meta_pin_code = Some ''560001'', meta_contact = Some ''+912222222222'',
            meta_seller_name = Some ''Beta''\<rparr>"

definition exEnv :: env where
  "exEnv = \<lparr>embedder = (\<lambda>q. Some []), index_query = (\<lambda>qp. Some [exFar, exNear]),
            send_ok = (\<lambda>m. True), now = 42, parseFloat = exParseFloat,
            numToString = exNumToString\<rparr>"

definition exBuyer :: string where
  "exBuyer = ''whatsapp:+919999999999''"

definition exInquiry :: inquiry where
  "exInquiry = \<lparr>user = exBuyer, productName = Val ''Sodium'',
                suppliers = [\<lparr>number = Some ''+911111111111'', name = Some ''Acme''\<rparr>]\<rparr>"

definition exStore :: store where
  "exStore = \<lparr>sessions = [exBuyer \<mapsto> \<lparr>state = ''QUANTITY'', data = emptyData\<rparr>],
              inquiries = [''42'' \<mapsto> exInquiry], outbox = []\<rparr>"



definition exSame :: request_data where
  "exSame = \<lparr>product_name = Val ''Sodium'', category = Undefined, quantity = Null,
             pincode = Val ''390013'', proximity = Val ''same''\<rparr>"




definition exAsked :: request_data where
  "exAsked = \<lparr>product_name = Val ''Sodium'', category = Undefined, quantity = Null,
              pincode = Undefined, proximity = Undefined\<rparr>"

definition exStoreIn :: "string \<Rightarrow> request_data \<Rightarrow> store" where
  "exStoreIn position d =
     \<lparr>sessions = [exBuyer \<mapsto> \<lparr>state = position, data = d\<rparr>], inquiries = Map.empty,
      outbox = []\<rparr>"

definition exPinned :: request_data where
  "exPinned = exAsked\<lparr>pincode := Val ''390013''\<rparr>"

definition exNoContact :: match where
  "exNoContact = \<lparr>match_id = ''d'', meta_product_name = Some ''Sodium Carbonate'',
                  meta_pin_code = Some ''390020'', meta_contact = None,
                  meta_seller_name = Some ''Delta''\<rparr>"

definition exEnvNoContact :: env where
  "exEnvNoContact = exEnv\<lparr>index_query := (\<lambda>qp. Some [exNoContact])\<rparr>"

definition exEnvEmbedderDown :: env where
  "exEnvEmbedderDown = exEnv\<lparr>embedder := (\<lambda>q. None)\<rparr>"

definition exEnvIndexDown :: env where
  "exEnvIndexDown = exEnv\<lparr>index_query := (\<lambda>qp. None)\<rparr>"

definition exSay :: "string \<Rightarrow> request" where
  "exSay text = \<lparr>Body = text, From = exBuyer\<rparr>"

definition exEmptyStore :: store where
  "exEmptyStore = \<lparr>sessions = Map.empty, inquiries = Map.empty, outbox = []\<rparr>"



section \<open>Correlation references\<close>





lemma inquiryIdMatch_pattern:
  "isDigit dgt \<Longrightarrow> inquiryIdMatch (pre @ CHR ''#'' # dgt # post) \<noteq> None"
  by (induction pre) auto

lemma inquiryIdMatch_pattern_iff:
  "inquiryIdMatch s \<noteq> None \<longleftrightarrow> (\<exists>pre dgt post. s = pre @ CHR ''#'' # dgt # post \<and> isDigit dgt)"
proof
  show "inquiryIdMatch s \<noteq> None \<Longrightarrow> \<exists>pre dgt post. s = pre @ CHR ''#'' # dgt # post \<and> isDigit dgt"
  proof (induction s)
    case Nil
    then show ?case by simp
  next
    case (Cons c cs)
    show ?case
    proof (cases "c = CHR ''#'' \<and> takeWhile isDigit cs \<noteq> []")
      case True
      then obtain dgt post where "cs = dgt # post" "isDigit dgt"
        by (cases cs) (auto split: if_splits)
      with True have "c # cs = [] @ CHR ''#'' # dgt # post \<and> isDigit dgt" by simp
      then show ?thesis by blast
    next
      case False
      with Cons.prems have "inquiryIdMatch cs \<noteq> None" by auto
      from Cons.IH [OF this] obtain pre dgt post
        where "cs = pre @ CHR ''#'' # dgt # post" "isDigit dgt" by blast
      then have "c # cs = (c # pre) @ CHR ''#'' # dgt # post \<and> isDigit dgt" by simp
      then show ?thesis by blast
    qed
  qed
next
  show "\<exists>pre dgt post. s = pre @ CHR ''#'' # dgt # post \<and> isDigit dgt \<Longrightarrow> inquiryIdMatch s \<noteq> None"
    using inquiryIdMatch_pattern by blast
qed

lemma supplierResponse_sessions:
  "sessions (snd (supplierResponse e st f m i)) = sessions st"
  by (simp add: supplierResponse_def Let_def split: option.splits)

lemma supplierResponse_outcomes:
  "fst (supplierResponse e st f m i)
     \<in> {Inr msg_forwarded, Inr msg_supplier_not_found, Inr msg_inquiry_not_found, Inl TransportError}"
  by (simp add: supplierResponse_def Let_def split: option.splits)

text \<open>Claim C10. A message that holds \<open>#\<close> followed by a digit is answered by the
  supplier-reply branch, whatever the store holds: the session map after the message is
  the session map before it, and the handler ends in one of the branch's outcomes
  (forwarded, supplier not found, inquiry not found, or the transport's exception). No
  session is created, changed or deleted, so a buyer in the middle of a dialogue keeps
  the position.\<close>

theorem correlation_message_keeps_sessions:
  assumes "trim (Body req) = pre @ CHR ''#'' # dgt # post" and "isDigit dgt"
  shows "sessions (snd (webhook e st req)) = sessions st
       \<and> fst (webhook e st req)
           \<in> {Inr msg_forwarded, Inr msg_supplier_not_found, Inr msg_inquiry_not_found,
              Inl TransportError}"
proof -
  from assms obtain i where i: "inquiryIdMatch (trim (Body req)) = Some i"
    using inquiryIdMatch_pattern [of dgt pre post] by auto
  then have "webhook e st req = supplierResponse e st (From req) (trim (Body req)) i"
    by (simp add: webhook_def)
  then show ?thesis
    using supplierResponse_sessions supplierResponse_outcomes by simp
qed

theorem correlation_message_keeps_sessions_witness:
  "trim (Body \<lparr>Body = '' Price for #42 is 100 '', From = exBuyer\<rparr>)
     = ''Price for '' @ CHR ''#'' # CHR ''4'' # ''2 is 100''
   \<and> isDigit (CHR ''4'')
   \<and> sessions (snd (webhook exEnv exStore \<lparr>Body = '' Price for #42 is 100 '', From = exBuyer\<rparr>))
       = sessions exStore
   \<and> fst (webhook exEnv exStore \<lparr>Body = '' Price for #42 is 100 '', From = exBuyer\<rparr>)
       = Inr msg_supplier_not_found"
proof -
  have t: "trim (Body \<lparr>Body = '' Price for #42 is 100 '', From = exBuyer\<rparr>)
             = ''Price for '' @ CHR ''#'' # CHR ''4'' # ''2 is 100''"
    by (simp add: trim_def isSpace_def)
  have d: "isDigit (CHR ''4'')" by (simp add: isDigit_def)
  have r: "fst (webhook exEnv exStore \<lparr>Body = '' Price for #42 is 100 '', From = exBuyer\<rparr>)
       = Inr msg_supplier_not_found"
    by (simp add: Let_def webhook_def trim_def isSpace_def isDigit_def supplierResponse_def exStore_def
        exInquiry_def exBuyer_def startsWith_def)
  from correlation_message_keeps_sessions [OF t d, of exEnv exStore] t d r
  show ?thesis by blast
qed

section \<open>Termination keywords and the first message\<close>






section \<open>The search result\<close>

lemma length_applyProximity:
  assumes "applyProximity d ms = Inr r"
    and "proximity d \<in> {Undefined, Null, Val ''same'', Val ''pan''}"
  shows "length r \<le> 5"
  using assms by (auto simp add: applyProximity_def split: if_splits sum.splits)

lemma same_applyProximity:
  assumes "applyProximity d ms = Inr r" and "proximity d = Val ''same''"
    and "pincode d = Val p" and "p \<noteq> []" and "m \<in> set r"
  shows "pinHasPrefix (take 2 p) m"
  using assms
  by (auto simp add: applyProximity_def filterByPrefix_def split: if_splits sum.splits
      dest!: in_set_takeD)

lemma performSearch_Inr:
  assumes "performSearch e d = Inr ms"
  shows "ms = [] \<or> (\<exists>named. applyProximity d named = Inr ms)"
  using assms
  by (auto simp add: performSearch_def Let_def split: option.splits sum.splits if_splits)

lemma pinHasPrefix_first_two:
  assumes "pinHasPrefix (take 2 p) m"
  shows "\<exists>c. meta_pin_code m = Some c \<and> startsWith c (take 2 p)
             \<and> (2 \<le> length p \<longrightarrow> take 2 c = take 2 p)"
proof -
  from assms obtain c where c: "meta_pin_code m = Some c" "startsWith c (take 2 p)"
    by (auto simp add: pinHasPrefix_def split: option.splits)
  have "take 2 c = take 2 p" if "2 \<le> length p"
    using c(2) that by (auto simp add: startsWith_def min_def split: if_splits)
  with c show ?thesis by blast
qed

text \<open>Claim C2. For every request whose proximity preference is one the data model
  allows (unset, \<open>same\<close> or \<open>pan\<close>; the handler stores no other, see \<open>webhook_typed\<close>
  below), a search that returns gives at most five matches.
  When the preference is \<open>same\<close> and a PIN code is given, every match returned has a
  \<open>PIN Code\<close> field that starts with the first two characters of the requester's PIN
  code; for a PIN code of at least two characters the two codes agree on their first two
  characters.\<close>

theorem performSearch_at_most_five_and_same_state:
  assumes "performSearch e d = Inr ms"
    and "proximity d \<in> {Undefined, Null, Val ''same'', Val ''pan''}"
  shows "length ms \<le> 5
       \<and> (\<forall>p. proximity d = Val ''same'' \<and> pincode d = Val p \<and> p \<noteq> [] \<longrightarrow>
              (\<forall>m \<in> set ms. \<exists>c. meta_pin_code m = Some c \<and> startsWith c (take 2 p)
                                  \<and> (2 \<le> length p \<longrightarrow> take 2 c = take 2 p)))"
proof (intro conjI allI impI ballI)
  from performSearch_Inr [OF assms(1)] show "length ms \<le> 5"
    using length_applyProximity [OF _ assms(2)] by auto
next
  fix p m
  assume same: "proximity d = Val ''same'' \<and> pincode d = Val p \<and> p \<noteq> []" and m: "m \<in> set ms"
  from m have "ms \<noteq> []" by auto
  with performSearch_Inr [OF assms(1)] obtain named where "applyProximity d named = Inr ms"
    by blast
  from same_applyProximity [OF this _ _ _ m] same have "pinHasPrefix (take 2 p) m" by blast
  then show "\<exists>c. meta_pin_code m = Some c \<and> startsWith c (take 2 p)
                  \<and> (2 \<le> length p \<longrightarrow> take 2 c = take 2 p)"
    by (rule pinHasPrefix_first_two)
qed

lemma exSame_search: "performSearch exEnv exSame = Inr [exNear]"
  by (simp add: performSearch_def Let_def exEnv_def exSame_def buildQuery_def buildFilters_def
      filterByName_def nameMatches_def exFar_def exNear_def toLowerCase_def lowerChar_def
      startsWith_def applyProximity_def filterByPrefix_def pinHasPrefix_def)

theorem performSearch_at_most_five_and_same_state_witness:
  "performSearch exEnv exSame = Inr [exNear]
   \<and> proximity exSame = Val ''same'' \<and> pincode exSame = Val ''390013''
   \<and> length [exNear] \<le> 5
   \<and> meta_pin_code exNear = Some ''390001''
   \<and> take 2 ''390001'' = take 2 ''390013''"
proof -
  have px: "proximity exSame \<in> {Undefined, Null, Val ''same'', Val ''pan''}"
    by (simp add: exSame_def)
  note inst = performSearch_at_most_five_and_same_state [OF exSame_search px]
  have sel: "proximity exSame = Val ''same'' \<and> pincode exSame = Val ''390013'' \<and> ''390013'' \<noteq> []"
    by (simp add: exSame_def)
  from inst [THEN conjunct2, THEN spec, THEN mp, OF sel]
  obtain c where "meta_pin_code exNear = Some c"
    "2 \<le> length ''390013'' \<longrightarrow> take 2 c = take 2 ''390013''" by auto
  moreover have "meta_pin_code exNear = Some ''390001''" by (simp add: exNear_def)
  ultimately have "take 2 ''390001'' = take 2 ''390013''" by simp
  with inst [THEN conjunct1] exSame_search sel \<open>meta_pin_code exNear = Some ''390001''\<close>
  show ?thesis by simp
qed

















section \<open>Supplier replies\<close>

lemma inquiryIdMatch_first_reference:
  assumes "inquiryIdMatch pre = None" and "i \<noteq> []" and "list_all isDigit i"
    and "post = [] \<or> \<not> isDigit (hd post)"
  shows "inquiryIdMatch (pre @ CHR ''#'' # i @ post) = Some i"
  using assms(1)
proof (induction pre)
  case Nil
  have "takeWhile isDigit (i @ post) = i"
    using assms(3,4) by (cases post) (auto simp add: list_all_iff takeWhile_append2)
  with assms(2) show ?case by simp
next
  case (Cons c cs)
  from Cons.prems have no: "inquiryIdMatch cs = None"
    and here: "\<not> (c = CHR ''#'' \<and> takeWhile isDigit cs \<noteq> [])"
    by (auto split: if_splits)
  have "\<not> (c = CHR ''#'' \<and> takeWhile isDigit (cs @ CHR ''#'' # i @ post) \<noteq> [])"
  proof (cases cs)
    case Nil
    then show ?thesis by (simp add: isDigit_def)
  next
    case (Cons x xs)
    with here show ?thesis by auto
  qed
  with Cons.IH [OF no] show ?case by auto
qed






lemma exStore_inquiry_created:
  "\<exists>reply st'. performSearchAndFormat exEnv exSame exBuyer (exStore\<lparr>inquiries := Map.empty\<rparr>)
                  = Inr (reply, st')
              \<and> inquiries st' = inquiries exStore"
  unfolding performSearchAndFormat_def exSame_search
  by (simp add: Let_def exEnv_def showNat.simps digitChar_def newInquiry_def exSame_def
      exNear_def exStore_def exInquiry_def supplierNumbers_def)


section \<open>The PINCODE state\<close>

lemma userMessage_switch:
  assumes "sessions st f = Some s"
    and "toLowerCase m \<noteq> ''no''" and "toLowerCase m \<noteq> ''stop''" and "toLowerCase m \<noteq> ''hello''"
  shows "userMessage e st f m =
           (case switchState e st f m s of
              (Inl err, s', kept, st') \<Rightarrow> (Inl err, putSession st' f s' kept)
            | (Inr reply, s', kept, st') \<Rightarrow>
                (Inr (if state s' = ''END'' then reply @ msg_search_again else reply),
                 putSession st' f s' kept))"
  using assms by (simp add: userMessage_def Let_def split: prod.splits sum.splits)

lemma webhook_dialogue:
  assumes "inquiryIdMatch (trim (Body req)) = None"
  shows "webhook e st req = userMessage e st (From req) (trim (Body req))"
  using assms by (simp add: webhook_def Let_def)


lemma performSearchAndFormat_sessions:
  "performSearchAndFormat e d f st = Inr (reply, st') \<Longrightarrow> sessions st' = sessions st"
  by (auto simp add: performSearchAndFormat_def Let_def split: sum.splits if_splits)












lemma exStoreIn_session:
  "sessions (exStoreIn position d) exBuyer = Some \<lparr>state = position, data = d\<rparr>"
  by (simp add: exStoreIn_def)



section \<open>Inquiry creation, external failures and the END state\<close>

lemma performSearchAndFormat_none:
  assumes "performSearch e d = Inr []"
  shows "performSearchAndFormat e d f st = Inr (msg_none_found, st)"
  using assms by (simp add: performSearchAndFormat_def)

lemma performSearchAndFormat_no_contacts:
  assumes "performSearch e d = Inr ms" and "ms \<noteq> []" and "supplierNumbers ms = []"
  shows "performSearchAndFormat e d f st =
           Inr (msg_no_contacts,
                st\<lparr>inquiries := (inquiries st)(showNat (now e) \<mapsto> newInquiry d f ms)\<rparr>)"
  using assms by (simp add: performSearchAndFormat_def Let_def)

lemma performSearchAndFormat_stores_inquiry:
  assumes "performSearch e d = Inr ms" and "ms \<noteq> []"
    and "performSearchAndFormat e d f st = Inr (reply, st')"
  shows "inquiries st' = (inquiries st)(showNat (now e) \<mapsto> newInquiry d f ms)"
  using assms by (auto simp add: performSearchAndFormat_def Let_def split: if_splits)

lemma exNoContact_search: "performSearch exEnvNoContact exSame = Inr [exNoContact]"
  by (simp add: performSearch_def Let_def exEnvNoContact_def exEnv_def exSame_def buildQuery_def
      buildFilters_def filterByName_def nameMatches_def exNoContact_def toLowerCase_def
      lowerChar_def startsWith_def applyProximity_def filterByPrefix_def pinHasPrefix_def)

lemma showNat_42: "showNat 42 = ''42''"
  by (simp add: showNat.simps digitChar_def)

text \<open>Claim C7, amended. The gate of the code is the match list, not the contact
  numbers. A search without match stores nothing and is answered with no suppliers
  found. A search with a match stores the inquiry under the clock's id, with every
  match as a supplier, whether or not a match has a contact number; the session map is
  untouched. When no match has a contact number nothing is sent and the buyer is told
  that no supplier with a contact number was found, not the success message; otherwise
  the success message counts the contact numbers. The counterexample is a catalogue
  whose only match has no contact number: the inquiry map, empty before, holds inquiry
  42 afterwards.\<close>

theorem inquiry_created_iff_search_has_match:
  assumes "performSearch e d = Inr ms"
  shows "(ms = [] \<longrightarrow> performSearchAndFormat e d f st = Inr (msg_none_found, st))
       \<and> (ms \<noteq> [] \<longrightarrow>
            (\<exists>reply st'.
               performSearchAndFormat e d f st = Inr (reply, st')
               \<and> inquiries st' = (inquiries st)(showNat (now e) \<mapsto> newInquiry d f ms)
               \<and> sessions st' = sessions st
               \<and> (supplierNumbers ms = [] \<longrightarrow> reply = msg_no_contacts \<and> outbox st' = outbox st)
               \<and> (supplierNumbers ms \<noteq> [] \<longrightarrow>
                    reply = msg_sent (showNat (now e)) (length (supplierNumbers ms)))))"
  using assms by (simp add: performSearchAndFormat_def Let_def)

theorem inquiry_created_iff_search_has_match_witness:
  "performSearch exEnvNoContact exSame = Inr [exNoContact]
   \<and> supplierNumbers [exNoContact] = []
   \<and> (\<exists>st'. performSearchAndFormat exEnvNoContact exSame exBuyer exEmptyStore
                = Inr (msg_no_contacts, st')
             \<and> inquiries st' = [''42'' \<mapsto> newInquiry exSame exBuyer [exNoContact]]
             \<and> outbox st' = [])
   \<and> performSearch exEnv exSame = Inr [exNear]
   \<and> supplierNumbers [exNear] = [''+911111111111'']
   \<and> (\<exists>st'. performSearchAndFormat exEnv exSame exBuyer exEmptyStore
                = Inr (msg_sent ''42'' 1, st')
             \<and> inquiries st' = [''42'' \<mapsto> newInquiry exSame exBuyer [exNear]])"
proof -
  have none: "supplierNumbers [exNoContact] = []"
    by (simp add: supplierNumbers_def exNoContact_def)
  have one: "supplierNumbers [exNear] = [''+911111111111'']"
    by (simp add: supplierNumbers_def exNear_def)
  have clock: "showNat (now exEnvNoContact) = ''42''" "showNat (now exEnv) = ''42''"
    by (simp_all add: exEnvNoContact_def exEnv_def showNat_42)
  from inquiry_created_iff_search_has_match [OF exNoContact_search, of exBuyer exEmptyStore]
  have a: "\<exists>st'. performSearchAndFormat exEnvNoContact exSame exBuyer exEmptyStore
                = Inr (msg_no_contacts, st')
             \<and> inquiries st' = [''42'' \<mapsto> newInquiry exSame exBuyer [exNoContact]]
             \<and> outbox st' = []"
    using none by (auto simp add: clock exEmptyStore_def)
  from inquiry_created_iff_search_has_match [OF exSame_search, of exBuyer exEmptyStore]
  have b: "\<exists>st'. performSearchAndFormat exEnv exSame exBuyer exEmptyStore
                = Inr (msg_sent ''42'' 1, st')
             \<and> inquiries st' = [''42'' \<mapsto> newInquiry exSame exBuyer [exNear]]"
    using one by (auto simp add: clock exEmptyStore_def)
  from exNoContact_search none a exSame_search one b show ?thesis by blast
qed

theorem inquiry_stored_without_contactable_supplier_counterexample:
  "performSearch exEnvNoContact exSame = Inr [exNoContact]
   \<and> supplierNumbers [exNoContact] = []
   \<and> inquiries exEmptyStore ''42'' = None
   \<and> performSearchAndFormat exEnvNoContact exSame exBuyer exEmptyStore =
       Inr (msg_no_contacts,
            exEmptyStore\<lparr>inquiries :=
              [''42'' \<mapsto> \<lparr>user = exBuyer, productName = Val ''Sodium'',
                              suppliers = [\<lparr>number = None, name = Some ''Delta''\<rparr>]\<rparr>]\<rparr>)"
proof -
  have none: "supplierNumbers [exNoContact] = []"
    by (simp add: supplierNumbers_def exNoContact_def)
  have "performSearchAndFormat exEnvNoContact exSame exBuyer exEmptyStore =
       Inr (msg_no_contacts,
            exEmptyStore\<lparr>inquiries := (inquiries exEmptyStore)(showNat (now exEnvNoContact) \<mapsto>
               newInquiry exSame exBuyer [exNoContact])\<rparr>)"
    using performSearchAndFormat_no_contacts [OF exNoContact_search _ none] by simp
  then have "performSearchAndFormat exEnvNoContact exSame exBuyer exEmptyStore =
       Inr (msg_no_contacts,
            exEmptyStore\<lparr>inquiries :=
              [''42'' \<mapsto> \<lparr>user = exBuyer, productName = Val ''Sodium'',
                              suppliers = [\<lparr>number = None, name = Some ''Delta''\<rparr>]\<rparr>]\<rparr>)"
    by (simp add: exEnvNoContact_def exEnv_def showNat_42 newInquiry_def exSame_def
        exNoContact_def exEmptyStore_def)
  with exNoContact_search none show ?thesis by (simp add: exEmptyStore_def)
qed

lemma performSearch_embedder_fails:
  assumes "\<forall>q. embedder e q = None"
  shows "performSearch e d = Inl EmbedderError"
  using assms by (simp add: performSearch_def Let_def)

lemma performSearch_index_fails:
  assumes "embedder e (if truthy (product_name d) then strOf (product_name d) else ''chemicals'')
             = Some v"
    and "\<forall>qp. index_query e qp = None"
  shows "performSearch e d = Inr []"
  using assms by (simp add: performSearch_def Let_def)

lemma switchState_proximity_raises:
  assumes "state s = ''PROXIMITY''" and "toLowerCase m = ''same'' \<or> toLowerCase m = ''pan''"
    and "performSearchAndFormat e ((data s)\<lparr>proximity := Val (toLowerCase m)\<rparr>) f st = Inl err"
  shows "switchState e st f m s =
           (Inl err, s\<lparr>data := (data s)\<lparr>proximity := Val (toLowerCase m)\<rparr>\<rparr>, True, st)"
  using assms by (auto simp add: switchState_def Let_def)

lemma switchState_proximity_returns:
  assumes "state s = ''PROXIMITY''" and "toLowerCase m = ''same'' \<or> toLowerCase m = ''pan''"
    and "performSearchAndFormat e ((data s)\<lparr>proximity := Val (toLowerCase m)\<rparr>) f st
           = Inr (reply, st')"
  shows "switchState e st f m s =
           (Inr reply, s\<lparr>data := (data s)\<lparr>proximity := Val (toLowerCase m)\<rparr>, state := ''END''\<rparr>,
            True, st')"
  using assms by (auto simp add: switchState_def Let_def)

lemma exSay_same:
  "From (exSay ''same'') = exBuyer \<and> inquiryIdMatch (trim (Body (exSay ''same''))) = None
   \<and> toLowerCase (trim (Body (exSay ''same''))) = ''same''"
  by (simp add: exSay_def trim_def isSpace_def toLowerCase_def lowerChar_def)

lemma exSay_same_trim: "trim (Body (exSay ''same'')) = ''same''"
  by (simp add: exSay_def trim_def isSpace_def)

text \<open>Claim C8. The claim: a failing embedder makes the search fail with a reply in the
  style of no suppliers found. In the code the call of the embedder stands outside every
  \<open>try\<close>: with a buyer in state \<open>PROXIMITY\<close> answering \<open>same\<close>, the handler ends with the
  embedder's exception and sends no reply; the session stays, in state \<open>PROXIMITY\<close> with
  the preference already stored. The failing index query, which the code does catch,
  gives the reply the claim describes and reaches \<open>END\<close>.\<close>

theorem embedder_failure_leaves_handler_unanswered:
  "webhook exEnvEmbedderDown (exStoreIn ''PROXIMITY'' exPinned) (exSay ''same'')
     = (Inl EmbedderError, exStoreIn ''PROXIMITY'' (exPinned\<lparr>proximity := Val ''same''\<rparr>))
   \<and> webhook exEnvIndexDown (exStoreIn ''PROXIMITY'' exPinned) (exSay ''same'')
     = (Inr (msg_none_found @ msg_search_again),
        exStoreIn ''END'' (exPinned\<lparr>proximity := Val ''same''\<rparr>))"
proof -
  let ?st = "exStoreIn ''PROXIMITY'' exPinned"
  let ?s = "\<lparr>state = ''PROXIMITY'', data = exPinned\<rparr>"
  have s: "sessions ?st exBuyer = Some ?s" by (rule exStoreIn_session)
  have turn: "toLowerCase ''same'' = ''same''" by (simp add: toLowerCase_def lowerChar_def)
  have down: "performSearchAndFormat exEnvEmbedderDown
                ((data ?s)\<lparr>proximity := Val (toLowerCase ''same'')\<rparr>) exBuyer ?st = Inl EmbedderError"
    using performSearch_embedder_fails [of exEnvEmbedderDown]
    by (simp add: performSearchAndFormat_def exEnvEmbedderDown_def)
  have "webhook exEnvEmbedderDown ?st (exSay ''same'')
          = userMessage exEnvEmbedderDown ?st exBuyer ''same''"
    using webhook_dialogue [of "exSay ''same''"] exSay_same by (simp add: exSay_same_trim)
  also have "\<dots> = (Inl EmbedderError,
                     putSession ?st exBuyer (?s\<lparr>data := (data ?s)\<lparr>proximity := Val ''same''\<rparr>\<rparr>) True)"
    using userMessage_switch [OF s, of "''same''" exEnvEmbedderDown]
      switchState_proximity_raises [of ?s "''same''", OF _ _ down] turn by simp
  finally have one: "webhook exEnvEmbedderDown ?st (exSay ''same'')
     = (Inl EmbedderError, exStoreIn ''PROXIMITY'' (exPinned\<lparr>proximity := Val ''same''\<rparr>))"
    by (simp add: putSession_def exStoreIn_def)
  have "performSearch exEnvIndexDown ((data ?s)\<lparr>proximity := Val (toLowerCase ''same'')\<rparr>) = Inr []"
    by (rule performSearch_index_fails [where v = "[]"])
       (simp_all add: exEnvIndexDown_def exEnv_def)
  then have idx: "performSearchAndFormat exEnvIndexDown
                ((data ?s)\<lparr>proximity := Val (toLowerCase ''same'')\<rparr>) exBuyer ?st
                  = Inr (msg_none_found, ?st)"
    by (rule performSearchAndFormat_none)
  have "webhook exEnvIndexDown ?st (exSay ''same'') = userMessage exEnvIndexDown ?st exBuyer ''same''"
    using webhook_dialogue [of "exSay ''same''"] exSay_same by (simp add: exSay_same_trim)
  also have "\<dots> = (Inr (msg_none_found @ msg_search_again),
                     putSession ?st exBuyer
                       (?s\<lparr>data := (data ?s)\<lparr>proximity := Val ''same''\<rparr>, state := ''END''\<rparr>) True)"
    using userMessage_switch [OF s, of "''same''" exEnvIndexDown]
      switchState_proximity_returns [of ?s "''same''", OF _ _ idx] turn by simp
  finally have two: "webhook exEnvIndexDown ?st (exSay ''same'')
     = (Inr (msg_none_found @ msg_search_again),
        exStoreIn ''END'' (exPinned\<lparr>proximity := Val ''same''\<rparr>))"
    by (simp add: putSession_def exStoreIn_def)
  from one two show ?thesis by blast
qed

lemma end_state_other_input:
  assumes "sessions st (From req) = Some s" and "state s = ''END''"
    and "inquiryIdMatch (trim (Body req)) = None"
    and "toLowerCase (trim (Body req)) \<noteq> ''no''" and "toLowerCase (trim (Body req)) \<noteq> ''stop''"
    and "toLowerCase (trim (Body req)) \<noteq> ''hello''"
    and "toLowerCase (trim (Body req)) \<noteq> ''yes''" and "toLowerCase (trim (Body req)) \<noteq> ''y''"
  shows "webhook e st req =
           (Inr (msg_farewell @ msg_search_again), st\<lparr>sessions := (sessions st)(From req := None)\<rparr>)"
proof -
  have "switchState e st (From req) (trim (Body req)) s = (Inr msg_farewell, s, False, st)"
    using assms(2,7,8) by (simp add: switchState_def Let_def)
  then show ?thesis
    using webhook_dialogue [OF assms(3), of e st]
      userMessage_switch [OF assms(1) assms(4) assms(5) assms(6), of e] assms(2)
    by (simp add: putSession_def)
qed

lemma exSay_thanks:
  "From (exSay ''thanks'') = exBuyer \<and> inquiryIdMatch (trim (Body (exSay ''thanks''))) = None
   \<and> toLowerCase (trim (Body (exSay ''thanks''))) = ''thanks''"
  by (simp add: exSay_def trim_def isSpace_def toLowerCase_def lowerChar_def)

text \<open>Claim C9. The claim: the farewell text is returned without the search-again suffix.
  In the code the suffix is appended whenever the session object is in state \<open>END\<close> and
  the message is not \<open>no\<close> or \<open>stop\<close>; the object of a session just deleted in the \<open>END\<close>
  case still has that state (\<open>end_state_other_input\<close>). Evaluated for a buyer in state
  \<open>END\<close> who sends \<open>thanks\<close>: the session is deleted and the reply is the farewell text
  followed by the suffix.\<close>

theorem farewell_carries_search_again_suffix:
  "sessions (exStoreIn ''END'' exSame) exBuyer = Some \<lparr>state = ''END'', data = exSame\<rparr>
   \<and> webhook exEnv (exStoreIn ''END'' exSame) (exSay ''thanks'')
       = (Inr (msg_farewell @ msg_search_again), (exStoreIn ''END'' exSame)\<lparr>sessions := Map.empty\<rparr>)
   \<and> msg_farewell @ msg_search_again \<noteq> msg_farewell"
proof -
  have s: "sessions (exStoreIn ''END'' exSame) (From (exSay ''thanks''))
             = Some \<lparr>state = ''END'', data = exSame\<rparr>"
    using exSay_thanks by (simp add: exStoreIn_session)
  have "webhook exEnv (exStoreIn ''END'' exSame) (exSay ''thanks'')
       = (Inr (msg_farewell @ msg_search_again),
          (exStoreIn ''END'' exSame)\<lparr>sessions :=
             (sessions (exStoreIn ''END'' exSame))(From (exSay ''thanks'') := None)\<rparr>)"
    using end_state_other_input [OF s, of exEnv] exSay_thanks by simp
  then have w: "webhook exEnv (exStoreIn ''END'' exSame) (exSay ''thanks'')
       = (Inr (msg_farewell @ msg_search_again), (exStoreIn ''END'' exSame)\<lparr>sessions := Map.empty\<rparr>)"
    using exSay_thanks by (simp add: exStoreIn_def)
  have "msg_farewell @ msg_search_again \<noteq> msg_farewell"
    by (simp add: msg_search_again_def)
  with w exStoreIn_session show ?thesis by blast
qed

section \<open>A dialogue carried through\<close>























section \<open>Every session holds a preference of the data model\<close>

text \<open>The handler stores no other preference than \<open>same\<close> and \<open>pan\<close>: a store whose
  sessions are typed stays typed under every message, so also along every sequence of
  turns. The requests the handler searches with are those of its sessions.\<close>

lemma switchState_typed:
  assumes "proximityTyped (data s)" and "switchState e st f m s = (r, s', kept, st')"
  shows "proximityTyped (data s') \<and> sessions st' = sessions st"
  using assms
  by (auto simp add: switchState_def Let_def proximityTyped_def emptyData_def
      split: if_splits sum.splits prod.splits dest: performSearchAndFormat_sessions)

lemma userMessage_typed:
  assumes "sessionsTyped st"
  shows "sessionsTyped (snd (userMessage e st f m))"
proof -
  define s where "s = (case sessions st f of
                       None \<Rightarrow> \<lparr>state = ''START'', data = emptyData\<rparr>
                     | Some s \<Rightarrow> if toLowerCase m = ''hello''
                                then \<lparr>state = ''START'', data = emptyData\<rparr> else s)"
  have s: "proximityTyped (data s)"
    using assms by (auto simp add: s_def sessionsTyped_def proximityTyped_def emptyData_def
        split: option.splits)
  obtain r s' kept st' where sw: "switchState e st f m s = (r, s', kept, st')"
    by (cases "switchState e st f m s") auto
  from switchState_typed [OF s sw] have typed: "proximityTyped (data s')"
    and same: "sessions st' = sessions st" by auto
  have "sessionsTyped (putSession st' f s' kept)"
    using assms typed same by (auto simp add: sessionsTyped_def putSession_def)
  moreover have "sessionsTyped (putSession st f s False)"
    using assms by (auto simp add: sessionsTyped_def putSession_def)
  ultimately show ?thesis
    using sw by (auto simp add: userMessage_def Let_def s_def [symmetric] split: sum.splits)
qed

lemma webhook_typed:
  assumes "sessionsTyped st"
  shows "sessionsTyped (snd (webhook e st req))"
proof (cases "inquiryIdMatch (trim (Body req))")
  case None
  then show ?thesis using userMessage_typed [OF assms] by (simp add: webhook_def Let_def)
next
  case (Some i)
  then show ?thesis
    using assms supplierResponse_sessions [of e st "From req" "trim (Body req)" i]
    by (simp add: webhook_def Let_def sessionsTyped_def)
qed

lemma runTurns_typed:
  "sessionsTyped st \<Longrightarrow> sessionsTyped (runTurns st ts)"
  by (induction ts arbitrary: st) (auto simp add: webhook_typed)

end
